theory Spec2Isabelle
  imports Complex_Main "HOL-Library.Sublist" "HOL-Library.Multiset"
begin

section \<open>Python values, exceptions and effects\<close>

text \<open>
  The development embeds \<^verbatim>\<open>server/aws_utils.py\<close> and \<^verbatim>\<open>server/report_server.py\<close>.
  An exception is a value of \<open>py_error\<close>; \<open>Raised m\<close> stands for any exception of a
  library or service call whose \<^verbatim>\<open>str(e)\<close> is \<open>m\<close>, and \<open>OverflowError m\<close> carries its
  message. Calls to the logger are not modelled. Numbers that CloudWatch reports (Python
  floats) are reals. The functions of the program compute with them exactly; the
  reduction of the fetcher is given a second time with the rounding of binary64
  arithmetic, in the section on floating point, where the order between the average and
  the extremes is at stake.
\<close>

datatype py_error = IndexError | OverflowError string | Raised string

fun str :: "py_error \<Rightarrow> string" where
  "str IndexError = ''list index out of range''"
| "str (OverflowError m) = m"
| "str (Raised m) = m"

text \<open>
  Everything outside the program (the AWS services, the clock, the file system, the PDF
  renderer) is reached through a world state of an arbitrary type \<open>'w\<close>. An action takes
  the world, returns a value or raises, and returns the world after it.
\<close>

type_synonym ('a, 'w) action = "'w \<Rightarrow> (py_error + 'a) \<times> 'w"

definition returns :: "'a \<Rightarrow> ('a, 'w) action" where
  "returns x w = (Inr x, w)"

definition of_result :: "py_error + 'a \<Rightarrow> ('a, 'w) action" where
  "of_result r w = (r, w)"

definition and_then :: "('a, 'w) action \<Rightarrow> ('a \<Rightarrow> ('b, 'w) action) \<Rightarrow> ('b, 'w) action" where
  "and_then m f w = (case m w of (Inl e, w') \<Rightarrow> (Inl e, w') | (Inr x, w') \<Rightarrow> f x w')"

definition try_except :: "('a, 'w) action \<Rightarrow> (py_error \<Rightarrow> 'a) \<Rightarrow> 'w \<Rightarrow> 'a \<times> 'w" where
  \<comment> \<open>\<^verbatim>\<open>try: return body  except Exception as e: return handler(e)\<close>\<close>
  "try_except body handler w =
     (case body w of (Inl e, w') \<Rightarrow> (handler e, w') | (Inr x, w') \<Rightarrow> (x, w'))"

definition index0 :: "'a list \<Rightarrow> py_error + 'a" where
  \<comment> \<open>\<^verbatim>\<open>xs[0]\<close>\<close>
  "index0 xs = (case xs of [] \<Rightarrow> Inl IndexError | x # _ \<Rightarrow> Inr x)"

fun str_contains :: "string \<Rightarrow> string \<Rightarrow> bool" where
  \<comment> \<open>\<^verbatim>\<open>sub in s\<close> on strings\<close>
  "str_contains sub [] = (sub = [])"
| "str_contains sub (c # cs) = (prefix sub (c # cs) \<or> str_contains sub cs)"

fun split_str :: "char \<Rightarrow> string \<Rightarrow> string list" where
  \<comment> \<open>\<^verbatim>\<open>s.split(sep)\<close> for a separator of one character\<close>
  "split_str sep [] = [[]]"
| "split_str sep (c # cs) =
     (if c = sep then [] # split_str sep cs
      else (case split_str sep cs of [] \<Rightarrow> [[c]] | p # ps \<Rightarrow> (c # p) # ps))"

definition lower_char :: "char \<Rightarrow> char" where
  "lower_char c =
     (let n = (of_char c :: nat) in if 65 \<le> n \<and> n \<le> 90 then char_of (n + 32) else c)"

definition lower :: "string \<Rightarrow> string" where
  \<comment> \<open>\<^verbatim>\<open>s.lower()\<close> on ASCII\<close>
  "lower s = map lower_char s"

subsection \<open>Dates\<close>

text \<open>
  A \<^verbatim>\<open>datetime\<close> is its number of microseconds since 0001-01-01T00:00:00, a
  \<^verbatim>\<open>timedelta\<close> a number of microseconds. Both constructors of the standard library raise
  \<^verbatim>\<open>OverflowError\<close> outside their range (\<open>|days| \<le> 999999999\<close>, years 1 to 9999).
\<close>

type_synonym datetime = int

function decimal_nat :: "nat \<Rightarrow> string" where
  "decimal_nat n =
     (if n < 10 then [char_of (48 + n)]
      else decimal_nat (n div 10) @ [char_of (48 + n mod 10)])"
  by pat_completeness auto
termination
  by (relation "measure (\<lambda>n. n)") auto

declare decimal_nat.simps [simp del]

definition decimal :: "int \<Rightarrow> string" where
  \<comment> \<open>an integer under the format \<^verbatim>\<open>%d\<close>\<close>
  "decimal i = (if i < 0 then ''-'' @ decimal_nat (nat (- i)) else decimal_nat (nat i))"

definition timedelta :: "int \<Rightarrow> py_error + int" where
  \<comment> \<open>\<^verbatim>\<open>timedelta(days=days)\<close>\<close>
  "timedelta days =
     (if \<bar>days\<bar> \<le> 999999999 then Inr (days * 86400000000)
      else Inl (OverflowError
                  (''days='' @ decimal days @ ''; must have magnitude <= 999999999'')))"

definition datetime_sub :: "datetime \<Rightarrow> int \<Rightarrow> py_error + datetime" where
  \<comment> \<open>\<^verbatim>\<open>t - delta\<close>\<close>
  "datetime_sub t delta =
     (let r = t - delta
      in if 0 \<le> r \<and> r < 3652059 * 86400000000 then Inr r
         else Inl (OverflowError ''date value out of range''))"

subsection \<open>Floating point\<close>

text \<open>
  A Python float is a binary64 number. \<open>binary64 x\<close> is the float nearest to the real \<open>x\<close>,
  ties going to the even significand: \<open>quantum\<close> finds the spacing of the floats around
  \<open>x\<close>, a power of two that leaves 53 bits to the significand and is never below
  \<open>2 ^ -1074\<close>, the spacing of the subnormal numbers. The search takes at most 1074
  steps. Overflow to infinity is not modelled: the sums and quotients below are of
  magnitude less than \<open>2 ^ 1024\<close>. The sum of a float and a float, and their quotient, are
  the exact results rounded.
\<close>

definition round_half_even :: "real \<Rightarrow> int" where
  "round_half_even x =
     (let f = \<lfloor>x\<rfloor>; r = x - of_int f
      in if r < 1 / 2 then f else if 1 / 2 < r then f + 1 else if even f then f else f + 1)"

function quantum :: "nat \<Rightarrow> real \<Rightarrow> real \<Rightarrow> int \<Rightarrow> real" where
  "quantum n m q e =
     (if n = 0 then q
      else if 2 ^ 53 \<le> m then quantum (n - 1) (m / 2) (q * 2) (e + 1)
      else if m < 2 ^ 52 \<and> - 1074 < e then quantum (n - 1) (m * 2) (q / 2) (e - 1)
      else q)"
  by pat_completeness auto
termination
  by (relation "measure (\<lambda>(n, m, q, e). n)") auto

declare quantum.simps [simp del]

definition binary64 :: "real \<Rightarrow> real" where
  "binary64 x =
     (if x = 0 then 0
      else let q = quantum 1100 \<bar>x\<bar> 1 0 in of_int (round_half_even (x / q)) * q)"

definition float_add :: "real \<Rightarrow> real \<Rightarrow> real" where
  "float_add x y = binary64 (x + y)"

definition float_div :: "real \<Rightarrow> real \<Rightarrow> real" where
  "float_div x y = binary64 (x / y)"

section \<open>The AWS interface\<close>

record client =
  client_service :: string
  client_region_name :: string
  client_access_key_id :: string
  client_secret_access_key :: string

record tag =
  Key :: string
  Value :: string

text \<open>
  An EC2 instance as \<^verbatim>\<open>describe_instances\<close> returns it. \<open>Tags\<close> is \<open>None\<close> when the key is
  absent; \<open>Platform\<close> is \<open>None\<close> when the key is absent and \<open>Some None\<close> when its value is
  \<^verbatim>\<open>None\<close>. \<open>State_Name\<close> is \<^verbatim>\<open>instance['State']['Name']\<close>. A reservation is the list of
  its \<^verbatim>\<open>'Instances'\<close>, a response the list of its \<^verbatim>\<open>'Reservations'\<close>.
\<close>

record ec2_instance =
  InstanceId :: string
  InstanceType :: string
  State_Name :: string
  Platform :: "string option option"
  Tags :: "tag list option"

type_synonym ec2_response = "ec2_instance list list"

record db_instance =
  DBInstanceIdentifier :: string
  DBInstanceClass :: string
  DBInstanceStatus :: string
  Engine :: string

type_synonym rds_response = "db_instance list"

text \<open>A datapoint: its \<^verbatim>\<open>'Timestamp'\<close> and the value of the requested statistic.\<close>

record datapoint =
  Timestamp :: datetime
  Statistic :: real

record metric_query =
  Namespace :: string
  MetricName :: string
  Dimensions :: "(string \<times> string) list"
  StartTime :: datetime
  EndTime :: datetime
  Period :: int
  Statistics :: "string list"

type_synonym bytes = "nat list"

section \<open>The records the program builds\<close>

text \<open>
  A metric series is the dictionary \<^verbatim>\<open>{'timestamps', 'values', 'average', 'min', 'max'}\<close>;
  \<open>total\<close> is the key \<^verbatim>\<open>'total'\<close>, \<open>None\<close> when the dictionary has no such key. The field
  \<open>vals\<close> is the key \<^verbatim>\<open>'values'\<close>, \<open>min_value\<close> and \<open>max_value\<close> are \<^verbatim>\<open>'min'\<close> and
  \<^verbatim>\<open>'max'\<close>.
\<close>

record metric_series =
  timestamps :: "datetime list"
  vals :: "real list"
  average :: real
  min_value :: real
  max_value :: real
  total :: "int option"

record metrics =
  cpu :: metric_series
  memory :: metric_series
  disk :: metric_series

text \<open>
  A resource is the dictionary of \<^verbatim>\<open>list_ec2_instances\<close>, each field \<open>res_k\<close> its key
  \<^verbatim>\<open>'k'\<close>. \<open>res_platform\<close> and \<open>res_engine\<close> are \<open>None\<close> when the dictionary has no such
  key (an EC2 dictionary has no \<^verbatim>\<open>'engine'\<close>, an RDS dictionary no \<^verbatim>\<open>'platform'\<close>).
\<close>

record resource =
  res_id :: string
  res_name :: string
  res_type :: string
  res_state :: string
  res_platform :: "string option"
  res_engine :: "string option"
  res_region :: string
  res_service_type :: string

record resource_metrics = resource +
  res_metrics :: metrics

text \<open>
  The services and the host, as the program calls them. \<open>boto3_client\<close> is
  \<^verbatim>\<open>boto3.client(service, region_name=..., ...)\<close>; \<open>describe_instances\<close> takes the
  \<^verbatim>\<open>InstanceIds\<close> argument when there is one, \<open>describe_db_instances\<close> the
  \<^verbatim>\<open>DBInstanceIdentifier\<close>. \<open>generate_pdf_report\<close> is the function of the module
  \<^verbatim>\<open>report_generator\<close>, \<open>makedirs\<close> is \<^verbatim>\<open>os.makedirs(path, exist_ok=True)\<close> and
  \<open>write_file\<close> opens a path for writing and writes the bytes.
\<close>

record 'w env =
  boto3_client :: "string \<Rightarrow> string \<Rightarrow> string \<Rightarrow> string \<Rightarrow> (client, 'w) action"
  utcnow :: "'w \<Rightarrow> datetime \<times> 'w"
  describe_instances :: "client \<Rightarrow> string list option \<Rightarrow> (ec2_response, 'w) action"
  describe_db_instances :: "client \<Rightarrow> string option \<Rightarrow> (rds_response, 'w) action"
  get_metric_statistics :: "client \<Rightarrow> metric_query \<Rightarrow> (datapoint list, 'w) action"
  generate_pdf_report :: "string \<Rightarrow> resource_metrics list \<Rightarrow> (bytes, 'w) action"
  makedirs :: "string \<Rightarrow> (unit, 'w) action"
  write_file :: "string \<Rightarrow> bytes \<Rightarrow> (unit, 'w) action"

definition get_aws_client ::
  "'w env \<Rightarrow> string \<Rightarrow> string \<Rightarrow> string \<Rightarrow> string \<Rightarrow> (client, 'w) action" where
  "get_aws_client env service region aws_access_key aws_secret_key =
     boto3_client env service region aws_access_key aws_secret_key"

section \<open>The metric fetcher\<close>

definition empty_series :: metric_series where
  "empty_series =
     \<lparr>timestamps = [], vals = [], average = 0, min_value = 0, max_value = 0, total = None\<rparr>"

definition series_of_datapoints :: "datapoint list \<Rightarrow> metric_series" where
  \<comment> \<open>lines 104 to 117: sort by timestamp, then reduce\<close>
  "series_of_datapoints datapoints =
     (let data_points = sort_key Timestamp datapoints;
          ts = map Timestamp data_points;
          vs = map Statistic data_points
      in (case vs of
            [] \<Rightarrow>
              \<lparr>timestamps = ts, vals = vs, average = 0, min_value = 0, max_value = 0,
               total = None\<rparr>
          | v # rest \<Rightarrow>
              \<lparr>timestamps = ts, vals = vs, average = sum_list vs / real (length vs),
               min_value = fold min rest v, max_value = fold max rest v, total = None\<rparr>))"

definition series_of_datapoints_binary64 :: "datapoint list \<Rightarrow> metric_series" where
  \<comment> \<open>lines 104 to 117 in binary64 arithmetic: \<^verbatim>\<open>sum\<close> adds from the left, starting from 0,
      and the quotient by the length is rounded; \<^verbatim>\<open>min\<close> and \<^verbatim>\<open>max\<close> select a value\<close>
  "series_of_datapoints_binary64 datapoints =
     (let data_points = sort_key Timestamp datapoints;
          ts = map Timestamp data_points;
          vs = map Statistic data_points
      in (case vs of
            [] \<Rightarrow>
              \<lparr>timestamps = ts, vals = vs, average = 0, min_value = 0, max_value = 0,
               total = None\<rparr>
          | v # rest \<Rightarrow>
              \<lparr>timestamps = ts, vals = vs,
               average = float_div (foldl float_add 0 vs) (real (length vs)),
               min_value = fold min rest v, max_value = fold max rest v, total = None\<rparr>))"

definition get_cloudwatch_metric_data ::
  "'w env \<Rightarrow> client \<Rightarrow> string \<Rightarrow> string \<Rightarrow> (string \<times> string) list \<Rightarrow> int \<Rightarrow> string
     \<Rightarrow> (metric_series, 'w) action" where
  "get_cloudwatch_metric_data env cloudwatch metric_name namespace dimensions period_days
       statistic =
     (\<lambda>w. case utcnow env w of (end_time, w1) \<Rightarrow>
        and_then (of_result (timedelta period_days)) (\<lambda>delta.
        and_then (of_result (datetime_sub end_time delta)) (\<lambda>start_time.
        (\<lambda>w2. case get_metric_statistics env cloudwatch
                     \<lparr>Namespace = namespace, MetricName = metric_name,
                      Dimensions = dimensions, StartTime = start_time, EndTime = end_time,
                      Period = 300, Statistics = [statistic]\<rparr> w2 of
                 (Inl e, w3) \<Rightarrow> (Inr empty_series, w3)
               | (Inr datapoints, w3) \<Rightarrow> (Inr (series_of_datapoints datapoints), w3)))) w1)"

definition get_cloudwatch_metric_data_binary64 ::
  "'w env \<Rightarrow> client \<Rightarrow> string \<Rightarrow> string \<Rightarrow> (string \<times> string) list \<Rightarrow> int \<Rightarrow> string
     \<Rightarrow> (metric_series, 'w) action" where
  \<comment> \<open>the fetcher again, its reduction in binary64 arithmetic\<close>
  "get_cloudwatch_metric_data_binary64 env cloudwatch metric_name namespace dimensions
       period_days statistic =
     (\<lambda>w. case utcnow env w of (end_time, w1) \<Rightarrow>
        and_then (of_result (timedelta period_days)) (\<lambda>delta.
        and_then (of_result (datetime_sub end_time delta)) (\<lambda>start_time.
        (\<lambda>w2. case get_metric_statistics env cloudwatch
                     \<lparr>Namespace = namespace, MetricName = metric_name,
                      Dimensions = dimensions, StartTime = start_time, EndTime = end_time,
                      Period = 300, Statistics = [statistic]\<rparr> w2 of
                 (Inl e, w3) \<Rightarrow> (Inr empty_series, w3)
               | (Inr datapoints, w3) \<Rightarrow>
                   (Inr (series_of_datapoints_binary64 datapoints), w3)))) w1)"

section \<open>Metrics of one resource\<close>

definition name_from_tags :: "string \<Rightarrow> tag list option \<Rightarrow> string" where
  \<comment> \<open>the loop over \<^verbatim>\<open>instance['Tags']\<close>, starting from the default name\<close>
  "name_from_tags default_name tags =
     (case tags of
        None \<Rightarrow> default_name
      | Some ts \<Rightarrow>
          fold (\<lambda>tag instance_name. if Key tag = ''Name'' then Value tag else instance_name)
            ts default_name)"

definition platform_of :: "ec2_instance \<Rightarrow> string" where
  \<comment> \<open>\<^verbatim>\<open>instance.get('Platform', 'Linux')\<close>, and \<^verbatim>\<open>'Linux'\<close> again when that is \<^verbatim>\<open>None\<close>\<close>
  "platform_of instance =
     (case Platform instance of
        None \<Rightarrow> ''Linux''
      | Some None \<Rightarrow> ''Linux''
      | Some (Some p) \<Rightarrow> p)"

definition ec2_fallback :: "string \<Rightarrow> string \<Rightarrow> resource_metrics" where
  \<comment> \<open>the dictionary of the \<^verbatim>\<open>except\<close> branch of \<^verbatim>\<open>get_ec2_metrics\<close>\<close>
  "ec2_fallback instance_id region =
     \<lparr>res_id = instance_id, res_name = instance_id, res_type = ''Unknown'',
      res_state = ''Unknown'', res_platform = Some ''Unknown'', res_engine = None,
      res_region = region, res_service_type = ''EC2'',
      res_metrics = \<lparr>cpu = empty_series, memory = empty_series, disk = empty_series\<rparr>\<rparr>"

definition get_ec2_metrics_try ::
  "'w env \<Rightarrow> string \<Rightarrow> string \<Rightarrow> string \<Rightarrow> string \<Rightarrow> int \<Rightarrow> (resource_metrics, 'w) action" where
  \<comment> \<open>the \<^verbatim>\<open>try\<close> block of \<^verbatim>\<open>get_ec2_metrics\<close>\<close>
  "get_ec2_metrics_try env aws_access_key aws_secret_key instance_id region period_days =
     and_then (get_aws_client env ''cloudwatch'' region aws_access_key aws_secret_key)
       (\<lambda>cloudwatch.
     and_then (get_aws_client env ''ec2'' region aws_access_key aws_secret_key)
       (\<lambda>ec2_client.
     and_then (describe_instances env ec2_client (Some [instance_id])) (\<lambda>response.
     and_then (of_result (index0 response)) (\<lambda>reservation.
     and_then (of_result (index0 reservation)) (\<lambda>instance.
     let instance_name = name_from_tags instance_id (Tags instance);
         platform = platform_of instance;
         windows = (lower platform = ''windows'');
         dimensions = [(''InstanceId'', instance_id)];
         memory_metric =
           (if windows then ''Memory % Committed Bytes In Use'' else ''mem_used_percent'');
         disk_dimensions =
           dimensions @
             [(if windows then ''instance'' else ''path'', if windows then ''C:'' else ''/'')];
         disk_metric = (if windows then ''LogicalDisk % Free Space'' else ''disk_used_percent'')
     in
     and_then (get_cloudwatch_metric_data env cloudwatch ''CPUUtilization'' ''AWS/EC2''
                 dimensions period_days ''Average'') (\<lambda>cpu_data.
     and_then (get_cloudwatch_metric_data env cloudwatch memory_metric ''CWAgent''
                 dimensions period_days ''Average'') (\<lambda>memory_data.
     and_then (get_cloudwatch_metric_data env cloudwatch disk_metric ''CWAgent''
                 disk_dimensions period_days ''Average'') (\<lambda>disk_data.
     returns
       \<lparr>res_id = instance_id, res_name = instance_name, res_type = InstanceType instance,
        res_state = State_Name instance, res_platform = Some platform, res_engine = None,
        res_region = region, res_service_type = ''EC2'',
        res_metrics = \<lparr>cpu = cpu_data, memory = memory_data, disk = disk_data\<rparr>\<rparr>))))))))"

definition get_ec2_metrics ::
  "'w env \<Rightarrow> string \<Rightarrow> string \<Rightarrow> string \<Rightarrow> string \<Rightarrow> int \<Rightarrow> 'w \<Rightarrow> resource_metrics \<times> 'w" where
  "get_ec2_metrics env aws_access_key aws_secret_key instance_id region period_days =
     try_except
       (get_ec2_metrics_try env aws_access_key aws_secret_key instance_id region period_days)
       (\<lambda>e. ec2_fallback instance_id region)"

definition total_memory_gb :: "string \<Rightarrow> int" where
  \<comment> \<open>the \<^verbatim>\<open>if\<close>/\<^verbatim>\<open>elif\<close> chain on \<^verbatim>\<open>instance_class\<close>, in the order of the source\<close>
  "total_memory_gb instance_class =
     (if str_contains ''micro'' instance_class then 1
      else if str_contains ''small'' instance_class then 2
      else if str_contains ''medium'' instance_class then 4
      else if str_contains ''large'' instance_class then 8
      else if str_contains ''xlarge'' instance_class then 16
      else if str_contains ''2xlarge'' instance_class then 32
      else if str_contains ''4xlarge'' instance_class then 64
      else 8)"

definition bytes_to_gb :: "metric_series \<Rightarrow> metric_series" where
  \<comment> \<open>the conversion loop and the three assignments after it (lines 251 to 256, 268 to 273)\<close>
  "bytes_to_gb series =
     series
       \<lparr>vals := map (\<lambda>value. value / (1024 * 1024 * 1024)) (vals series),
        average := average series / (1024 * 1024 * 1024),
        min_value := min_value series / (1024 * 1024 * 1024),
        max_value := max_value series / (1024 * 1024 * 1024)\<rparr>"

definition rds_fallback :: "string \<Rightarrow> string \<Rightarrow> resource_metrics" where
  \<comment> \<open>the dictionary of the \<^verbatim>\<open>except\<close> branch of \<^verbatim>\<open>get_rds_metrics\<close>\<close>
  "rds_fallback instance_id region =
     \<lparr>res_id = instance_id, res_name = instance_id, res_type = ''Unknown'',
      res_state = ''Unknown'', res_platform = None, res_engine = Some ''Unknown'',
      res_region = region, res_service_type = ''RDS'',
      res_metrics =
        \<lparr>cpu = empty_series, memory = empty_series\<lparr>total := Some 0\<rparr>, disk = empty_series\<rparr>\<rparr>"

definition get_rds_metrics_try ::
  "'w env \<Rightarrow> string \<Rightarrow> string \<Rightarrow> string \<Rightarrow> string \<Rightarrow> int \<Rightarrow> (resource_metrics, 'w) action" where
  \<comment> \<open>the \<^verbatim>\<open>try\<close> block of \<^verbatim>\<open>get_rds_metrics\<close>\<close>
  "get_rds_metrics_try env aws_access_key aws_secret_key instance_id region period_days =
     and_then (get_aws_client env ''cloudwatch'' region aws_access_key aws_secret_key)
       (\<lambda>cloudwatch.
     and_then (get_aws_client env ''rds'' region aws_access_key aws_secret_key)
       (\<lambda>rds_client.
     and_then (describe_db_instances env rds_client (Some instance_id)) (\<lambda>response.
     and_then (of_result (index0 response)) (\<lambda>instance.
     let dimensions = [(''DBInstanceIdentifier'', instance_id)] in
     and_then (get_cloudwatch_metric_data env cloudwatch ''CPUUtilization'' ''AWS/RDS''
                 dimensions period_days ''Average'') (\<lambda>cpu_data.
     and_then (get_cloudwatch_metric_data env cloudwatch ''FreeableMemory'' ''AWS/RDS''
                 dimensions period_days ''Average'') (\<lambda>memory_data.
     let memory_data =
           (if vals memory_data \<noteq> []
            then (bytes_to_gb memory_data)
                   \<lparr>total := Some (total_memory_gb (DBInstanceClass instance))\<rparr>
            else memory_data)
     in
     and_then (get_cloudwatch_metric_data env cloudwatch ''FreeStorageSpace'' ''AWS/RDS''
                 dimensions period_days ''Average'') (\<lambda>disk_data.
     let disk_data = (if vals disk_data \<noteq> [] then bytes_to_gb disk_data else disk_data)
     in
     returns
       \<lparr>res_id = instance_id, res_name = instance_id, res_type = DBInstanceClass instance,
        res_state = DBInstanceStatus instance, res_platform = None,
        res_engine = Some (Engine instance), res_region = region,
        res_service_type = ''RDS'',
        res_metrics = \<lparr>cpu = cpu_data, memory = memory_data, disk = disk_data\<rparr>\<rparr>)))))))"

definition get_rds_metrics ::
  "'w env \<Rightarrow> string \<Rightarrow> string \<Rightarrow> string \<Rightarrow> string \<Rightarrow> int \<Rightarrow> 'w \<Rightarrow> resource_metrics \<times> 'w" where
  "get_rds_metrics env aws_access_key aws_secret_key instance_id region period_days =
     try_except
       (get_rds_metrics_try env aws_access_key aws_secret_key instance_id region period_days)
       (\<lambda>e. rds_fallback instance_id region)"

section \<open>The aggregator and the enumerator\<close>

fun get_instance_metrics ::
  "'w env \<Rightarrow> string \<Rightarrow> string \<Rightarrow> string list \<Rightarrow> int \<Rightarrow> 'w \<Rightarrow> resource_metrics list \<times> 'w" where
  "get_instance_metrics env aws_access_key aws_secret_key [] period_days w = ([], w)"
| "get_instance_metrics env aws_access_key aws_secret_key (resource # resource_list)
       period_days w =
     (case split_str (CHR ''|'') resource of
        [service_type, instance_id, region] \<Rightarrow>
          if service_type = ''EC2'' then
            (case get_ec2_metrics env aws_access_key aws_secret_key instance_id region
                    period_days w of
               (metrics, w') \<Rightarrow>
                 (case get_instance_metrics env aws_access_key aws_secret_key resource_list
                         period_days w' of
                    (metrics_data, w'') \<Rightarrow> (metrics # metrics_data, w'')))
          else if service_type = ''RDS'' then
            (case get_rds_metrics env aws_access_key aws_secret_key instance_id region
                    period_days w of
               (metrics, w') \<Rightarrow>
                 (case get_instance_metrics env aws_access_key aws_secret_key resource_list
                         period_days w' of
                    (metrics_data, w'') \<Rightarrow> (metrics # metrics_data, w'')))
          else get_instance_metrics env aws_access_key aws_secret_key resource_list
                 period_days w
      | _ \<Rightarrow>
          get_instance_metrics env aws_access_key aws_secret_key resource_list period_days w)"

definition instance_data :: "string \<Rightarrow> ec2_instance \<Rightarrow> resource" where
  \<comment> \<open>the body of the inner loop of \<^verbatim>\<open>list_ec2_instances\<close>\<close>
  "instance_data region instance =
     \<lparr>res_id = InstanceId instance,
      res_name = name_from_tags ''Unnamed'' (Tags instance),
      res_type = InstanceType instance, res_state = State_Name instance,
      res_platform = Some (platform_of instance), res_engine = None, res_region = region,
      res_service_type = ''EC2''\<rparr>"

definition list_ec2_instances ::
  "'w env \<Rightarrow> string \<Rightarrow> string \<Rightarrow> string \<Rightarrow> 'w \<Rightarrow> resource list \<times> 'w" where
  "list_ec2_instances env aws_access_key aws_secret_key region =
     try_except
       (and_then (get_aws_client env ''ec2'' region aws_access_key aws_secret_key)
          (\<lambda>ec2_client.
        and_then (describe_instances env ec2_client None) (\<lambda>response.
        returns (map (instance_data region) (concat response)))))
       (\<lambda>e. [])"

section \<open>The report server\<close>

text \<open>
  The JSON body of a report request, each field \<open>data_k\<close> its key \<^verbatim>\<open>'k'\<close> and \<open>None\<close> when
  the body has no such key. A response is the JSON object passed to \<^verbatim>\<open>jsonify\<close>, as the
  list of its members, with the HTTP status.
\<close>

record report_request =
  data_cloudAccountId :: "string option"
  data_resourceIds :: "string list option"
  data_accountName :: "string option"
  data_period :: "int option"
  data_aws_access_key :: "string option"
  data_aws_secret_key :: "string option"

datatype json = JBool bool | JString string

type_synonym http_response = "(string \<times> json) list \<times> nat"

definition format_field :: "string option \<Rightarrow> string" where
  \<comment> \<open>a value inside an f-string: \<^verbatim>\<open>None\<close> prints as \<^verbatim>\<open>None\<close>\<close>
  "format_field x = (case x of None \<Rightarrow> ''None'' | Some s \<Rightarrow> s)"

definition dirname :: "string \<Rightarrow> string" where
  \<comment> \<open>\<^verbatim>\<open>os.path.dirname\<close> of \<^verbatim>\<open>posixpath\<close>\<close>
  "dirname p =
     (let head = rev (dropWhile (\<lambda>c. c \<noteq> CHR ''/'') (rev p))
      in if head \<noteq> [] \<and> \<not> list_all (\<lambda>c. c = CHR ''/'') head
         then rev (dropWhile (\<lambda>c. c = CHR ''/'') (rev head))
         else head)"

definition credentials_required :: http_response where
  "credentials_required = ([(''error'', JString ''AWS credentials are required'')], 400)"

definition generate_report_try :: "'w env \<Rightarrow> report_request \<Rightarrow> (http_response, 'w) action" where
  \<comment> \<open>the \<^verbatim>\<open>try\<close> block of \<^verbatim>\<open>generate_report\<close>; \<^verbatim>\<open>not x\<close> holds of \<^verbatim>\<open>None\<close> and of the empty
      string\<close>
  "generate_report_try env data =
     (let cloud_account_id = data_cloudAccountId data;
          resource_ids = (case data_resourceIds data of None \<Rightarrow> [] | Some ids \<Rightarrow> ids);
          account_name =
            (case data_accountName data of None \<Rightarrow> ''AWS Account'' | Some n \<Rightarrow> n);
          period = (case data_period data of None \<Rightarrow> 1 | Some d \<Rightarrow> d)
      in (case (data_aws_access_key data, data_aws_secret_key data) of
            (Some aws_access_key, Some aws_secret_key) \<Rightarrow>
              if aws_access_key = [] \<or> aws_secret_key = [] then returns credentials_required
              else
                (\<lambda>w. case get_instance_metrics env aws_access_key aws_secret_key
                             resource_ids period w of
                   (metrics_data, w') \<Rightarrow>
                     and_then (generate_pdf_report env account_name metrics_data)
                       (\<lambda>pdf_data.
                     let filename =
                           ''aws-account-utilization-report-'' @ account_name @ ''-'' @
                             format_field cloud_account_id @ ''.pdf'';
                         filepath = ''public/reports/'' @ filename
                     in
                     and_then (makedirs env (dirname filepath)) (\<lambda>_.
                     and_then (write_file env filepath pdf_data) (\<lambda>_.
                     returns
                       ([(''success'', JBool True),
                         (''downloadUrl'', JString (''/reports/'' @ filename))], 200)))) w')
          | _ \<Rightarrow> returns credentials_required))"

definition generate_report :: "'w env \<Rightarrow> report_request \<Rightarrow> 'w \<Rightarrow> http_response \<times> 'w" where
  "generate_report env data =
     try_except (generate_report_try env data)
       (\<lambda>e. ([(''success'', JBool False), (''error'', JString (str e))], 500))"

section \<open>Notions the properties are stated with\<close>




definition spec_last_name_tag :: "string \<Rightarrow> tag list option \<Rightarrow> string" where
  \<comment> \<open>the value of the last tag keyed Name, the default when there is none\<close>
  "spec_last_name_tag default_name tags =
     (case tags of
        None \<Rightarrow> default_name
      | Some ts \<Rightarrow>
          (case filter (\<lambda>tag. Key tag = ''Name'') ts of
             [] \<Rightarrow> default_name
           | t # rest \<Rightarrow> Value (last (t # rest))))"

definition mean :: "real list \<Rightarrow> real" where
  "mean vs = sum_list vs / real (length vs)"

definition series_shape :: "metric_series \<Rightarrow> bool" where
  \<comment> \<open>what holds of a series whatever the rounding of its average\<close>
  "series_shape series =
     (length (timestamps series) = length (vals series) \<and>
      (if vals series = []
       then average series = 0 \<and> min_value series = 0 \<and> max_value series = 0
       else min_value series = Min (set (vals series)) \<and>
            max_value series = Max (set (vals series)) \<and>
            min_value series \<le> max_value series \<and>
            min_value series \<le> mean (vals series) \<and>
            mean (vals series) \<le> max_value series))"

subsection \<open>A small account, for concrete runs\<close>

text \<open>
  The world of the runs below is the number of calls made so far. The account holds two
  EC2 instances (\<open>i-123\<close> with two Name tags, \<open>i-456\<close> with no tags, on Windows) and two
  databases (\<open>db-1\<close> with no datapoints, \<open>db-2\<close> of class \<open>db.r5.2xlarge\<close> with two
  memory datapoints). CloudWatch reports three CPU datapoints for \<open>i-123\<close>, out of
  order, and refuses every \<open>FreeStorageSpace\<close> query. The lookups of \<open>i-000\<close> and
  \<open>db-0\<close> return an empty response; every other lookup raises.
\<close>

definition i_123 :: ec2_instance where
  "i_123 =
     \<lparr>InstanceId = ''i-123'', InstanceType = ''t3.micro'', State_Name = ''running'',
      Platform = None,
      Tags = Some [\<lparr>Key = ''Name'', Value = ''web''\<rparr>, \<lparr>Key = ''env'', Value = ''prod''\<rparr>,
                   \<lparr>Key = ''Name'', Value = ''web-2''\<rparr>]\<rparr>"

definition i_456 :: ec2_instance where
  "i_456 =
     \<lparr>InstanceId = ''i-456'', InstanceType = ''m5.large'', State_Name = ''stopped'',
      Platform = Some (Some ''Windows''), Tags = None\<rparr>"

definition db_1 :: db_instance where
  "db_1 =
     \<lparr>DBInstanceIdentifier = ''db-1'', DBInstanceClass = ''db.t3.medium'',
      DBInstanceStatus = ''available'', Engine = ''postgres''\<rparr>"

definition db_2 :: db_instance where
  "db_2 =
     \<lparr>DBInstanceIdentifier = ''db-2'', DBInstanceClass = ''db.r5.2xlarge'',
      DBInstanceStatus = ''available'', Engine = ''mysql''\<rparr>"

definition demo_datapoints :: "metric_query \<Rightarrow> py_error + datapoint list" where
  "demo_datapoints q =
     (if MetricName q = ''FreeStorageSpace'' then Inl (Raised ''Throttling'')
      else if MetricName q = ''CPUUtilization'' \<and> Dimensions q = [(''InstanceId'', ''i-123'')]
      then Inr [\<lparr>Timestamp = 63871287000000000, Statistic = 30\<rparr>,
                \<lparr>Timestamp = 63871286400000000, Statistic = 10\<rparr>,
                \<lparr>Timestamp = 63871286700000000, Statistic = 20\<rparr>]
      else if MetricName q = ''FreeableMemory'' \<and>
              Dimensions q = [(''DBInstanceIdentifier'', ''db-2'')]
      then Inr [\<lparr>Timestamp = 63871286700000000, Statistic = 3221225472\<rparr>,
                \<lparr>Timestamp = 63871286400000000, Statistic = 1073741824\<rparr>]
      else Inr [])"

definition demo_env :: "nat env" where
  "demo_env =
     \<lparr>boto3_client =
        (\<lambda>service region aws_access_key aws_secret_key w.
           (Inr \<lparr>client_service = service, client_region_name = region,
                  client_access_key_id = aws_access_key,
                  client_secret_access_key = aws_secret_key\<rparr>, w)),
      utcnow = (\<lambda>w. (63871287300000000, w)),
      describe_instances =
        (\<lambda>c ids w.
           (if ids = None then Inr [[i_123], [i_456]]
            else if ids = Some [''i-123''] then Inr [[i_123]]
            else if ids = Some [''i-456''] then Inr [[i_456]]
            else if ids = Some [''i-000''] then Inr []
            else Inl (Raised ''InvalidInstanceID.NotFound''), Suc w)),
      describe_db_instances =
        (\<lambda>c db w.
           (if db = Some ''db-1'' then Inr [db_1]
            else if db = Some ''db-2'' then Inr [db_2]
            else if db = Some ''db-0'' then Inr []
            else Inl (Raised ''DBInstanceNotFound''), Suc w)),
      get_metric_statistics = (\<lambda>c q w. (demo_datapoints q, Suc w)),
      generate_pdf_report =
        (\<lambda>account_name metrics_data w.
           (if account_name = ''broken'' then Inl (Raised ''render failed'')
            else Inr [37, 80, 68, 70], Suc w)),
      makedirs = (\<lambda>path w. (Inr (), Suc w)),
      write_file = (\<lambda>path content w. (Inr (), Suc w))\<rparr>"

definition demo_cloudwatch :: client where
  "demo_cloudwatch =
     \<lparr>client_service = ''cloudwatch'', client_region_name = ''us-east-1'',
      client_access_key_id = ''AK'', client_secret_access_key = ''SK''\<rparr>"

text \<open>The records that the aggregator builds for \<open>i-123\<close>, \<open>i-456\<close> and \<open>db-2\<close>.\<close>

definition i_123_metrics :: resource_metrics where
  "i_123_metrics =
     \<lparr>res_id = ''i-123'', res_name = ''web-2'', res_type = ''t3.micro'',
      res_state = ''running'', res_platform = Some ''Linux'', res_engine = None,
      res_region = ''us-east-1'', res_service_type = ''EC2'',
      res_metrics =
        \<lparr>cpu =
           \<lparr>timestamps = [63871286400000000, 63871286700000000, 63871287000000000],
            vals = [10, 20, 30], average = 20, min_value = 10, max_value = 30,
            total = None\<rparr>,
         memory = empty_series, disk = empty_series\<rparr>\<rparr>"

definition i_456_metrics :: resource_metrics where
  "i_456_metrics =
     \<lparr>res_id = ''i-456'', res_name = ''i-456'', res_type = ''m5.large'',
      res_state = ''stopped'', res_platform = Some ''Windows'', res_engine = None,
      res_region = ''us-east-1'', res_service_type = ''EC2'',
      res_metrics = \<lparr>cpu = empty_series, memory = empty_series, disk = empty_series\<rparr>\<rparr>"

definition db_2_metrics :: resource_metrics where
  "db_2_metrics =
     \<lparr>res_id = ''db-2'', res_name = ''db-2'', res_type = ''db.r5.2xlarge'',
      res_state = ''available'', res_platform = None, res_engine = Some ''mysql'',
      res_region = ''us-west-2'', res_service_type = ''RDS'',
      res_metrics =
        \<lparr>cpu = empty_series,
         memory =
           \<lparr>timestamps = [63871286400000000, 63871286700000000], vals = [1, 3],
            average = 2, min_value = 1, max_value = 3, total = Some 8\<rparr>,
         disk = empty_series\<rparr>\<rparr>"

text \<open>
  Three datapoints of value 0.1, that is of the float nearest to one tenth,
  \<open>3602879701896397 / 2 ^ 55\<close>.
\<close>

definition tenths :: "datapoint list" where
  "tenths =
     [\<lparr>Timestamp = 63871286400000000, Statistic = 3602879701896397 / 36028797018963968\<rparr>,
      \<lparr>Timestamp = 63871286700000000, Statistic = 3602879701896397 / 36028797018963968\<rparr>,
      \<lparr>Timestamp = 63871287000000000, Statistic = 3602879701896397 / 36028797018963968\<rparr>]"

text \<open>The small account again, with a CloudWatch that reports these three datapoints.\<close>

definition tenths_env :: "nat env" where
  "tenths_env = demo_env\<lparr>get_metric_statistics := (\<lambda>c q w. (Inr tenths, Suc w))\<rparr>"

section \<open>Strings\<close>

lemma str_contains_sublist: "str_contains sub s = sublist sub s"
  by (induction s) (auto simp: sublist_Cons_right)

lemma str_contains_suffix_part:
  assumes "str_contains (p @ q) s"
  shows "str_contains q s"
proof -
  from assms obtain ps ss where "s = ps @ (p @ q) @ ss"
    by (auto simp: str_contains_sublist sublist_def)
  then have "s = (ps @ p) @ q @ ss" by simp
  then show ?thesis unfolding str_contains_sublist sublist_def by blast
qed

lemma length_split_str: "length (split_str sep s) = Suc (count_list s sep)"
  by (induction s) (auto split: list.splits)

section \<open>The capacity estimate\<close>

lemma large_shadows:
  "str_contains ''xlarge'' c \<Longrightarrow> str_contains ''large'' c"
  "str_contains ''2xlarge'' c \<Longrightarrow> str_contains ''large'' c"
  "str_contains ''4xlarge'' c \<Longrightarrow> str_contains ''large'' c"
  using str_contains_suffix_part [of "''x''" "''large''" c]
    str_contains_suffix_part [of "''2x''" "''large''" c]
    str_contains_suffix_part [of "''4x''" "''large''" c]
  by simp_all

text \<open>
  The three branches after the test for \<open>large\<close> are never taken: a class name that
  contains \<open>xlarge\<close>, \<open>2xlarge\<close> or \<open>4xlarge\<close> contains \<open>large\<close>.
\<close>

lemma total_memory_gb_reachable:
  "total_memory_gb c =
     (if str_contains ''micro'' c then 1
      else if str_contains ''small'' c then 2
      else if str_contains ''medium'' c then 4
      else 8)"
  using large_shadows [of c] by (auto simp add: total_memory_gb_def)

lemma total_memory_gb_range: "total_memory_gb c \<in> {1, 2, 4, 8}"
  by (simp add: total_memory_gb_reachable)

text \<open>
  C1. The capacity estimate of an instance class is found by substring tests in the
  order micro, small, medium, large, xlarge, 2xlarge, 4xlarge, with 8 as the default, and
  the claim expects 32 for \<open>db.r5.2xlarge\<close>. The chain of the source gives 8 there, since
  the test for \<open>large\<close> comes first; the other three examples of the claim hold.
\<close>

theorem total_memory_gb_examples:
  "total_memory_gb ''db.r5.2xlarge'' = 8 \<and> total_memory_gb ''db.t3.large'' = 8 \<and>
   total_memory_gb ''db.t3.micro'' = 1 \<and> total_memory_gb ''db.unknown.huge'' = 8"
  by (simp add: total_memory_gb_def)

section \<open>Properties of the metric fetcher\<close>

lemma fetch_unfold:
  "get_cloudwatch_metric_data env cloudwatch metric_name namespace dimensions period_days statistic w =
     (case utcnow env w of (end_time, w1) \<Rightarrow>
        (case timedelta period_days of Inl e \<Rightarrow> (Inl e, w1) | Inr delta \<Rightarrow>
        (case datetime_sub end_time delta of Inl e \<Rightarrow> (Inl e, w1) | Inr start_time \<Rightarrow>
        (case get_metric_statistics env cloudwatch
                     \<lparr>Namespace = namespace, MetricName = metric_name,
                      Dimensions = dimensions, StartTime = start_time, EndTime = end_time,
                      Period = 300, Statistics = [statistic]\<rparr> w1 of
                 (Inl e, w3) \<Rightarrow> (Inr empty_series, w3)
               | (Inr datapoints, w3) \<Rightarrow> (Inr (series_of_datapoints datapoints), w3)))))"
  by (simp add: get_cloudwatch_metric_data_def and_then_def of_result_def
        split: prod.splits sum.splits)

lemma series_of_datapoints_Nil: "series_of_datapoints [] = empty_series"
  by (simp add: series_of_datapoints_def empty_series_def)

lemma series_fields:
  "timestamps (series_of_datapoints dps) = map Timestamp (sort_key Timestamp dps)"
  "vals (series_of_datapoints dps) = map Statistic (sort_key Timestamp dps)"
  "total (series_of_datapoints dps) = None"
  by (simp_all add: series_of_datapoints_def Let_def split: list.splits)

lemma fold_min_Min: "fold min rest (v::real) = Min (insert v (set rest))"
  using Min.set_eq_fold [of v rest] by simp

lemma fold_max_Max: "fold max rest (v::real) = Max (insert v (set rest))"
  using Max.set_eq_fold [of v rest] by simp

lemma series_reduction:
  assumes "dps \<noteq> []"
  shows "average (series_of_datapoints dps) = mean (vals (series_of_datapoints dps))"
    and "min_value (series_of_datapoints dps) = Min (set (vals (series_of_datapoints dps)))"
    and "max_value (series_of_datapoints dps) = Max (set (vals (series_of_datapoints dps)))"
proof -
  obtain v rest where vs: "map Statistic (sort_key Timestamp dps) = v # rest"
    using assms set_sort [of Timestamp dps] set_empty [of "sort_key Timestamp dps"]
    by (cases "sort_key Timestamp dps") auto
  show "average (series_of_datapoints dps) = mean (vals (series_of_datapoints dps))"
    using vs by (simp add: series_of_datapoints_def Let_def mean_def)
  show "min_value (series_of_datapoints dps) = Min (set (vals (series_of_datapoints dps)))"
    using vs by (simp add: series_of_datapoints_def Let_def fold_min_Min)
  show "max_value (series_of_datapoints dps) = Max (set (vals (series_of_datapoints dps)))"
    using vs by (simp add: series_of_datapoints_def Let_def fold_max_Max)
qed

lemma series_aligned:
  "zip (timestamps (series_of_datapoints dps)) (vals (series_of_datapoints dps)) =
     map (\<lambda>dp. (Timestamp dp, Statistic dp)) (sort_key Timestamp dps)"
  by (simp add: series_fields zip_map_map zip_same_conv_map)

text \<open>
  C3. When the call to the monitoring API is made and it fails, or returns no datapoint,
  the fetcher returns the series with empty sequences and average, min and max 0: a
  value, not an exception.
\<close>

theorem fetch_failure_or_no_datapoints:
  assumes "utcnow env w = (end_time, w1)"
    and "timedelta period_days = Inr delta"
    and "datetime_sub end_time delta = Inr start_time"
    and "get_metric_statistics env cloudwatch
           \<lparr>Namespace = namespace, MetricName = metric_name, Dimensions = dimensions,
            StartTime = start_time, EndTime = end_time, Period = 300,
            Statistics = [statistic]\<rparr> w1 = (response, w2)"
    and "(\<exists>e. response = Inl e) \<or> response = Inr []"
  shows "get_cloudwatch_metric_data env cloudwatch metric_name namespace dimensions
           period_days statistic w = (Inr empty_series, w2)"
  using assms by (auto simp: fetch_unfold series_of_datapoints_Nil)

theorem fetch_failure_or_no_datapoints_witness:
  "get_cloudwatch_metric_data demo_env demo_cloudwatch ''FreeStorageSpace'' ''AWS/RDS''
      [(''DBInstanceIdentifier'', ''db-2'')] 7 ''Average'' 0 = (Inr empty_series, 1)
   \<and> get_cloudwatch_metric_data demo_env demo_cloudwatch ''mem_used_percent'' ''CWAgent''
      [(''InstanceId'', ''i-123'')] 7 ''Average'' 0 = (Inr empty_series, 1)"
proof -
  have now: "utcnow demo_env 0 = (63871287300000000, 0)"
    by (simp add: demo_env_def)
  have delta: "timedelta 7 = Inr 604800000000"
    by (simp add: timedelta_def)
  have start: "datetime_sub 63871287300000000 604800000000 = Inr 63870682500000000"
    by (simp add: datetime_sub_def)
  have refused: "get_metric_statistics demo_env demo_cloudwatch
           \<lparr>Namespace = ''AWS/RDS'', MetricName = ''FreeStorageSpace'',
            Dimensions = [(''DBInstanceIdentifier'', ''db-2'')],
            StartTime = 63870682500000000, EndTime = 63871287300000000, Period = 300,
            Statistics = [''Average'']\<rparr> 0 = (Inl (Raised ''Throttling''), 1)"
    by (simp add: demo_env_def demo_datapoints_def)
  have no_data: "get_metric_statistics demo_env demo_cloudwatch
           \<lparr>Namespace = ''CWAgent'', MetricName = ''mem_used_percent'',
            Dimensions = [(''InstanceId'', ''i-123'')],
            StartTime = 63870682500000000, EndTime = 63871287300000000, Period = 300,
            Statistics = [''Average'']\<rparr> 0 = (Inr [], 1)"
    by (simp add: demo_env_def demo_datapoints_def)
  show ?thesis
    using fetch_failure_or_no_datapoints [OF now delta start refused]
      fetch_failure_or_no_datapoints [OF now delta start no_data]
    by simp
qed

text \<open>
  C7. When the API returns at least one datapoint, the timestamps of the result are
  sorted ascending, the pairs of timestamp and value are a permutation of those of the
  datapoints, the average is the arithmetic mean of the values, and min and max are their
  minimum and maximum. The run after it is the one of the specification: the values 30,
  10, 20, returned out of order, give 10, 20, 30 with average 20, min 10 and max 30.
\<close>

theorem fetch_sorted_and_reduced:
  assumes "utcnow env w = (end_time, w1)"
    and "timedelta period_days = Inr delta"
    and "datetime_sub end_time delta = Inr start_time"
    and "get_metric_statistics env cloudwatch
           \<lparr>Namespace = namespace, MetricName = metric_name, Dimensions = dimensions,
            StartTime = start_time, EndTime = end_time, Period = 300,
            Statistics = [statistic]\<rparr> w1 = (Inr datapoints, w2)"
    and "datapoints \<noteq> []"
  shows "\<exists>series.
           get_cloudwatch_metric_data env cloudwatch metric_name namespace dimensions
             period_days statistic w = (Inr series, w2) \<and>
           sorted (timestamps series) \<and>
           length (timestamps series) = length (vals series) \<and>
           mset (zip (timestamps series) (vals series)) =
             mset (map (\<lambda>dp. (Timestamp dp, Statistic dp)) datapoints) \<and>
           average series = sum_list (vals series) / real (length (vals series)) \<and>
           min_value series = Min (set (vals series)) \<and>
           max_value series = Max (set (vals series))"
proof -
  let ?s = "series_of_datapoints datapoints"
  have run: "get_cloudwatch_metric_data env cloudwatch metric_name namespace dimensions
             period_days statistic w = (Inr ?s, w2)"
    using assms(1-4) by (simp add: fetch_unfold)
  have sorted: "sorted (timestamps ?s)"
    by (simp add: series_fields)
  have len: "length (timestamps ?s) = length (vals ?s)"
    by (simp add: series_fields)
  have perm: "mset (zip (timestamps ?s) (vals ?s)) =
             mset (map (\<lambda>dp. (Timestamp dp, Statistic dp)) datapoints)"
    by (simp add: series_aligned)
  show ?thesis
    using run sorted len perm series_reduction [OF assms(5)]
    by (auto simp: mean_def)
qed

theorem fetch_sorted_and_reduced_witness:
  "get_cloudwatch_metric_data demo_env demo_cloudwatch ''CPUUtilization'' ''AWS/EC2''
      [(''InstanceId'', ''i-123'')] 1 ''Average'' 0 =
     (Inr \<lparr>timestamps = [63871286400000000, 63871286700000000, 63871287000000000],
            vals = [10, 20, 30], average = 20, min_value = 10, max_value = 30,
            total = None\<rparr>, 1)"
proof -
  have now: "utcnow demo_env 0 = (63871287300000000, 0)"
    by (simp add: demo_env_def)
  have delta: "timedelta 1 = Inr 86400000000"
    by (simp add: timedelta_def)
  have start: "datetime_sub 63871287300000000 86400000000 = Inr 63871200900000000"
    by (simp add: datetime_sub_def)
  have three: "get_metric_statistics demo_env demo_cloudwatch
           \<lparr>Namespace = ''AWS/EC2'', MetricName = ''CPUUtilization'',
            Dimensions = [(''InstanceId'', ''i-123'')],
            StartTime = 63871200900000000, EndTime = 63871287300000000, Period = 300,
            Statistics = [''Average'']\<rparr> 0 =
           (Inr [\<lparr>Timestamp = 63871287000000000, Statistic = 30\<rparr>,
                \<lparr>Timestamp = 63871286400000000, Statistic = 10\<rparr>,
                \<lparr>Timestamp = 63871286700000000, Statistic = 20\<rparr>], 1)"
    by (simp add: demo_env_def demo_datapoints_def)
  from fetch_sorted_and_reduced [OF now delta start three]
  obtain series where
    run: "get_cloudwatch_metric_data demo_env demo_cloudwatch ''CPUUtilization'' ''AWS/EC2''
      [(''InstanceId'', ''i-123'')] 1 ''Average'' 0 = (Inr series, 1)"
    by auto
  have "series = series_of_datapoints [\<lparr>Timestamp = 63871287000000000, Statistic = 30\<rparr>,
                \<lparr>Timestamp = 63871286400000000, Statistic = 10\<rparr>,
                \<lparr>Timestamp = 63871286700000000, Statistic = 20\<rparr>]"
    using run now delta start three by (simp add: fetch_unfold)
  then show ?thesis
    using run by (simp add: series_of_datapoints_def)
qed

section \<open>Sequencing\<close>

lemma and_then_Inr: "m w = (Inr x, w') \<Longrightarrow> and_then m f w = f x w'"
  by (simp add: and_then_def)

lemma and_then_Inl: "m w = (Inl e, w') \<Longrightarrow> and_then m f w = (Inl e, w')"
  by (simp add: and_then_def)

lemma and_then_Inr_iff:
  "and_then m f w = (Inr y, w'') \<longleftrightarrow> (\<exists>x w'. m w = (Inr x, w') \<and> f x w' = (Inr y, w''))"
  by (auto simp: and_then_def split: prod.splits sum.splits)

lemma of_result_Inr_iff: "of_result r w = (Inr x, w') \<longleftrightarrow> r = Inr x \<and> w' = w"
  by (auto simp: of_result_def)

lemma returns_iff: "returns x w = (r, w') \<longleftrightarrow> r = Inr x \<and> w' = w"
  by (auto simp: returns_def)

lemma index0_Inr_iff: "index0 xs = Inr x \<longleftrightarrow> (\<exists>rest. xs = x # rest)"
  by (auto simp: index0_def split: list.splits)

lemma try_except_cases:
  "try_except body handler w =
     (case body w of (Inl e, w') \<Rightarrow> (handler e, w') | (Inr x, w') \<Rightarrow> (x, w'))"
  by (simp add: try_except_def)

section \<open>Properties of the aggregator\<close>













lemma rds_try_fails:
  "get_rds_metrics_try env a s i r p w = (Inl e, w') \<Longrightarrow>
     get_rds_metrics env a s i r p w = (rds_fallback i r, w')"
  by (simp add: get_rds_metrics_def try_except_def)






section \<open>What a fetched series looks like\<close>

lemma fetch_Inr_cases:
  assumes "get_cloudwatch_metric_data env cw metric ns dims p stat w = (Inr series, w')"
  shows "series = empty_series \<or> (\<exists>dps. series = series_of_datapoints dps)"
  using assms
  by (auto simp: fetch_unfold split: prod.splits sum.splits)

lemma fetch_total: 
  assumes "get_cloudwatch_metric_data env cw metric ns dims p stat w = (Inr series, w')"
  shows "total series = None"
  using fetch_Inr_cases [OF assms] by (auto simp: empty_series_def series_fields)

lemma fetch_mean:
  assumes "get_cloudwatch_metric_data env cw metric ns dims p stat w = (Inr series, w')"
    and "vals series \<noteq> []"
  shows "average series = mean (vals series)"
proof -
  from fetch_Inr_cases [OF assms(1)] assms(2)
  obtain dps where dps: "series = series_of_datapoints dps"
    by (auto simp: empty_series_def)
  with assms(2) have "dps \<noteq> []"
    by (auto simp: series_fields)
  then show ?thesis
    using dps series_reduction(1) by simp
qed

lemma fetch_zero:
  assumes "get_cloudwatch_metric_data env cw metric ns dims p stat w = (Inr series, w')"
    and "vals series = []"
  shows "series = empty_series"
proof -
  from fetch_Inr_cases [OF assms(1)]
  consider "series = empty_series" | dps where "series = series_of_datapoints dps"
    by blast
  then show ?thesis
  proof cases
    case 1
    then show ?thesis .
  next
    case 2
    with assms(2) have "sort_key Timestamp dps = []"
      by (simp add: series_fields)
    then have "dps = []"
      using set_sort [of Timestamp dps] by simp
    with 2 show ?thesis
      by (simp add: series_of_datapoints_Nil)
  qed
qed

text \<open>
  The shape of every series the fetcher returns: the two sequences have the same length,
  the three numbers are 0 when there is no value, and otherwise min and max are the least
  and the greatest value. None of this depends on rounding.
\<close>

lemma fetch_shape:
  assumes "get_cloudwatch_metric_data env cw metric ns dims p stat w = (Inr series, w')"
  shows "length (timestamps series) = length (vals series)"
    and "vals series = [] \<Longrightarrow>
           average series = 0 \<and> min_value series = 0 \<and> max_value series = 0"
    and "vals series \<noteq> [] \<Longrightarrow>
           min_value series = Min (set (vals series)) \<and>
           max_value series = Max (set (vals series)) \<and>
           min_value series \<le> max_value series"
proof -
  from fetch_Inr_cases [OF assms]
  consider "series = empty_series" | dps where "series = series_of_datapoints dps"
    by blast
  then show "length (timestamps series) = length (vals series)"
    by cases (simp_all add: empty_series_def series_fields)
  show "average series = 0 \<and> min_value series = 0 \<and> max_value series = 0"
    if "vals series = []"
    using fetch_zero [OF assms that] by (simp add: empty_series_def)
  show "min_value series = Min (set (vals series)) \<and>
        max_value series = Max (set (vals series)) \<and>
        min_value series \<le> max_value series"
    if ne: "vals series \<noteq> []"
  proof -
    from fetch_Inr_cases [OF assms] ne
    obtain dps where dps: "series = series_of_datapoints dps"
      by (auto simp: empty_series_def)
    with ne have "dps \<noteq> []"
      by (auto simp: series_fields)
    then have "min_value series = Min (set (vals series))"
      and "max_value series = Max (set (vals series))"
      using dps series_reduction(2,3) by simp_all
    moreover have "Min (set (vals series)) \<le> Max (set (vals series))"
      using ne by (simp add: Min_le_iff)
    ultimately show ?thesis by simp
  qed
qed

text \<open>
  Over the reals the mean of a non-empty list lies between its minimum and its maximum.
  This is a fact of exact arithmetic: the program divides a floating-point sum, and the
  order between the rounded quotient and the extremes is outside this model.
\<close>

lemma sum_list_bounds:
  fixes vs :: "real list"
  assumes "\<forall>v \<in> set vs. lo \<le> v \<and> v \<le> hi"
  shows "lo * real (length vs) \<le> sum_list vs \<and> sum_list vs \<le> hi * real (length vs)"
  using assms by (induction vs) (auto simp: algebra_simps)

lemma mean_between:
  fixes vs :: "real list"
  assumes "vs \<noteq> []"
  shows "Min (set vs) \<le> mean vs \<and> mean vs \<le> Max (set vs)"
proof -
  have n: "0 < real (length vs)"
    using assms by simp
  have "\<forall>v \<in> set vs. Min (set vs) \<le> v \<and> v \<le> Max (set vs)"
    by simp
  from sum_list_bounds [OF this] n show ?thesis
    by (simp add: mean_def pos_le_divide_eq pos_divide_le_eq)
qed

section \<open>Bytes to gigabytes\<close>

lemma sum_list_divide: "sum_list (map (\<lambda>v. v / c) vs) = sum_list vs / (c::real)"
  by (induction vs) (simp_all add: add_divide_distrib)

lemma bytes_to_gb_fields:
  "timestamps (bytes_to_gb series) = timestamps series"
  "vals (bytes_to_gb series) = map (\<lambda>v. v / 2 ^ 30) (vals series)"
  "average (bytes_to_gb series) = average series / 2 ^ 30"
  "min_value (bytes_to_gb series) = min_value series / 2 ^ 30"
  "max_value (bytes_to_gb series) = max_value series / 2 ^ 30"
  "total (bytes_to_gb series) = total series"
  by (simp_all add: bytes_to_gb_def)

lemma mean_bytes_to_gb: "mean (vals (bytes_to_gb series)) = mean (vals series) / 2 ^ 30"
  by (simp add: bytes_to_gb_fields mean_def sum_list_divide)

section \<open>Database instances\<close>

lemma rds_try_success:
  assumes "get_rds_metrics_try env a s i r p w = (Inr m, w')"
  obtains cw w1 c w2 inst rest w3 cpu_data w4 memory_data w5 disk_data where
    "boto3_client env ''cloudwatch'' r a s w = (Inr cw, w1)"
    "boto3_client env ''rds'' r a s w1 = (Inr c, w2)"
    "describe_db_instances env c (Some i) w2 = (Inr (inst # rest), w3)"
    "get_cloudwatch_metric_data env cw ''CPUUtilization'' ''AWS/RDS''
       [(''DBInstanceIdentifier'', i)] p ''Average'' w3 = (Inr cpu_data, w4)"
    "get_cloudwatch_metric_data env cw ''FreeableMemory'' ''AWS/RDS''
       [(''DBInstanceIdentifier'', i)] p ''Average'' w4 = (Inr memory_data, w5)"
    "get_cloudwatch_metric_data env cw ''FreeStorageSpace'' ''AWS/RDS''
       [(''DBInstanceIdentifier'', i)] p ''Average'' w5 = (Inr disk_data, w')"
    "m = \<lparr>res_id = i, res_name = i, res_type = DBInstanceClass inst,
          res_state = DBInstanceStatus inst, res_platform = None,
          res_engine = Some (Engine inst), res_region = r, res_service_type = ''RDS'',
          res_metrics =
            \<lparr>cpu = cpu_data,
             memory =
               (if vals memory_data \<noteq> []
                then (bytes_to_gb memory_data)
                       \<lparr>total := Some (total_memory_gb (DBInstanceClass inst))\<rparr>
                else memory_data),
             disk = (if vals disk_data \<noteq> [] then bytes_to_gb disk_data else disk_data)\<rparr>\<rparr>"
  using assms
  unfolding get_rds_metrics_try_def get_aws_client_def Let_def
  by (auto simp: and_then_Inr_iff returns_iff of_result_Inr_iff index0_Inr_iff)

lemma demo_db_2_run:
  "get_rds_metrics_try demo_env ''AK'' ''SK'' ''db-2'' ''us-west-2'' 1 0 = (Inr db_2_metrics, 4)"
  by (simp add: get_rds_metrics_try_def get_aws_client_def and_then_def returns_def
      of_result_def index0_def fetch_unfold demo_env_def demo_datapoints_def timedelta_def
      datetime_sub_def series_of_datapoints_def bytes_to_gb_def total_memory_gb_def db_2_def
      empty_series_def db_2_metrics_def Let_def)

lemma demo_db_9_run:
  "get_rds_metrics_try demo_env ''AK'' ''SK'' ''db-9'' ''eu-west-1'' 1 0 =
     (Inl (Raised ''DBInstanceNotFound''), 1)"
  by (simp add: get_rds_metrics_try_def get_aws_client_def and_then_def demo_env_def)

lemma rds_try_series:
  assumes ok: "get_rds_metrics_try env a s i r p w = (Inr m, w')"
  shows "\<exists>cw w3 w4 w5 cpu_data memory_data disk_data (inst::db_instance).
      get_cloudwatch_metric_data env cw ''CPUUtilization'' ''AWS/RDS''
         [(''DBInstanceIdentifier'', i)] p ''Average'' w3 = (Inr cpu_data, w4) \<and>
      get_cloudwatch_metric_data env cw ''FreeableMemory'' ''AWS/RDS''
         [(''DBInstanceIdentifier'', i)] p ''Average'' w4 = (Inr memory_data, w5) \<and>
      get_cloudwatch_metric_data env cw ''FreeStorageSpace'' ''AWS/RDS''
         [(''DBInstanceIdentifier'', i)] p ''Average'' w5 = (Inr disk_data, w') \<and>
      res_type m = DBInstanceClass inst \<and>
      res_metrics m =
            \<lparr>cpu = cpu_data,
             memory =
               (if vals memory_data \<noteq> []
                then (bytes_to_gb memory_data)
                       \<lparr>total := Some (total_memory_gb (DBInstanceClass inst))\<rparr>
                else memory_data),
             disk = (if vals disk_data \<noteq> [] then bytes_to_gb disk_data else disk_data)\<rparr>"
proof (rule rds_try_success [OF ok], goal_cases)
  case (1 cw w1 c w2 inst rest w3 cpu_data w4 memory_data w5 disk_data)
  show ?case
    apply (rule exI [of _ cw], rule exI [of _ w3], rule exI [of _ w4], rule exI [of _ w5])
    apply (rule exI [of _ cpu_data], rule exI [of _ memory_data], rule exI [of _ disk_data])
    apply (rule exI [of _ inst])
    apply (simp add: 1)
    done
qed

lemma normalized_or_empty:
  assumes "get_cloudwatch_metric_data env cw metric ns dims p stat w = (Inr raw, w')"
    and "series = (if vals raw \<noteq> [] then (bytes_to_gb raw)\<lparr>total := t\<rparr> else raw) \<or>
         series = (if vals raw \<noteq> [] then bytes_to_gb raw else raw)"
  shows "vals series = map (\<lambda>v. v / 2 ^ 30) (vals raw) \<and>
         average series = average raw / 2 ^ 30 \<and>
         min_value series = min_value raw / 2 ^ 30 \<and>
         max_value series = max_value raw / 2 ^ 30 \<and>
         (vals series \<noteq> [] \<longrightarrow> average series = mean (vals series))"
proof (cases "vals raw = []")
  case True
  then have raw: "raw = empty_series"
    using fetch_zero [OF assms(1)] by simp
  then have "series = empty_series"
    using assms(2) by (simp add: empty_series_def)
  with raw show ?thesis
    by (simp add: empty_series_def)
next
  case False
  then have avg: "average raw = mean (vals raw)"
    using fetch_mean [OF assms(1)] by simp
  from False assms(2) have fields: "vals series = vals (bytes_to_gb raw)"
      "average series = average (bytes_to_gb raw)"
      "min_value series = min_value (bytes_to_gb raw)"
      "max_value series = max_value (bytes_to_gb raw)"
    by auto
  show ?thesis
    unfolding fields
    by (simp add: bytes_to_gb_fields avg mean_def sum_list_divide)
qed

text \<open>
  C5. The conversion divides every value and the average, min and max by \<open>2 ^ 30\<close>, so
  the mean of the converted values is the mean of the values divided by \<open>2 ^ 30\<close>. In a
  database record that the try block returns, the memory and the disk series are the
  fetched series divided once by \<open>2 ^ 30\<close> and the CPU series is the fetched one; the
  average of the memory series, and of the disk series, is the mean of its values.
\<close>

theorem bytes_to_gb_once_and_linear:
  "vals (bytes_to_gb series) = map (\<lambda>v. v / 2 ^ 30) (vals series) \<and>
   average (bytes_to_gb series) = average series / 2 ^ 30 \<and>
   min_value (bytes_to_gb series) = min_value series / 2 ^ 30 \<and>
   max_value (bytes_to_gb series) = max_value series / 2 ^ 30 \<and>
   mean (vals (bytes_to_gb series)) = mean (vals series) / 2 ^ 30 \<and>
   (get_rds_metrics_try env aws_access_key aws_secret_key instance_id region period_days w =
      (Inr m, w') \<longrightarrow>
    (\<exists>cloudwatch w3 w4 w5 cpu_data memory_data disk_data.
       get_cloudwatch_metric_data env cloudwatch ''CPUUtilization'' ''AWS/RDS''
         [(''DBInstanceIdentifier'', instance_id)] period_days ''Average'' w3 =
         (Inr cpu_data, w4) \<and>
       get_cloudwatch_metric_data env cloudwatch ''FreeableMemory'' ''AWS/RDS''
         [(''DBInstanceIdentifier'', instance_id)] period_days ''Average'' w4 =
         (Inr memory_data, w5) \<and>
       get_cloudwatch_metric_data env cloudwatch ''FreeStorageSpace'' ''AWS/RDS''
         [(''DBInstanceIdentifier'', instance_id)] period_days ''Average'' w5 =
         (Inr disk_data, w') \<and>
       cpu (res_metrics m) = cpu_data \<and>
       vals (memory (res_metrics m)) = map (\<lambda>v. v / 2 ^ 30) (vals memory_data) \<and>
       average (memory (res_metrics m)) = average memory_data / 2 ^ 30 \<and>
       min_value (memory (res_metrics m)) = min_value memory_data / 2 ^ 30 \<and>
       max_value (memory (res_metrics m)) = max_value memory_data / 2 ^ 30 \<and>
       vals (disk (res_metrics m)) = map (\<lambda>v. v / 2 ^ 30) (vals disk_data) \<and>
       average (disk (res_metrics m)) = average disk_data / 2 ^ 30 \<and>
       min_value (disk (res_metrics m)) = min_value disk_data / 2 ^ 30 \<and>
       max_value (disk (res_metrics m)) = max_value disk_data / 2 ^ 30) \<and>
    (vals (memory (res_metrics m)) \<noteq> [] \<longrightarrow>
       average (memory (res_metrics m)) = mean (vals (memory (res_metrics m)))) \<and>
    (vals (disk (res_metrics m)) \<noteq> [] \<longrightarrow>
       average (disk (res_metrics m)) = mean (vals (disk (res_metrics m)))))"
  (is "?A \<and> ?B \<and> ?C \<and> ?D \<and> ?E \<and> (?ok \<longrightarrow> ?R)")
proof -
  have conv: "?A \<and> ?B \<and> ?C \<and> ?D \<and> ?E"
    by (intro conjI bytes_to_gb_fields mean_bytes_to_gb)
  have run: ?R if ok: ?ok
  proof -
    from rds_try_series [OF ok]
    obtain cw w3 w4 w5 cpu_data memory_data disk_data and inst :: db_instance where
      f1: "get_cloudwatch_metric_data env cw ''CPUUtilization'' ''AWS/RDS''
         [(''DBInstanceIdentifier'', instance_id)] period_days ''Average'' w3 =
         (Inr cpu_data, w4)"
      and f2: "get_cloudwatch_metric_data env cw ''FreeableMemory'' ''AWS/RDS''
         [(''DBInstanceIdentifier'', instance_id)] period_days ''Average'' w4 =
         (Inr memory_data, w5)"
      and f3: "get_cloudwatch_metric_data env cw ''FreeStorageSpace'' ''AWS/RDS''
         [(''DBInstanceIdentifier'', instance_id)] period_days ''Average'' w5 =
         (Inr disk_data, w')"
      and ms: "res_metrics m =
            \<lparr>cpu = cpu_data,
             memory =
               (if vals memory_data \<noteq> []
                then (bytes_to_gb memory_data)
                       \<lparr>total := Some (total_memory_gb (DBInstanceClass inst))\<rparr>
                else memory_data),
             disk = (if vals disk_data \<noteq> [] then bytes_to_gb disk_data else disk_data)\<rparr>"
      by (elim exE conjE)
    have cpu: "cpu (res_metrics m) = cpu_data"
      by (simp add: ms)
    have mem: "memory (res_metrics m) =
        (if vals memory_data \<noteq> []
         then (bytes_to_gb memory_data)
                \<lparr>total := Some (total_memory_gb (DBInstanceClass inst))\<rparr>
         else memory_data)"
      by (simp add: ms)
    have dsk: "disk (res_metrics m) =
        (if vals disk_data \<noteq> [] then bytes_to_gb disk_data else disk_data)"
      by (simp add: ms)
    note m1 = normalized_or_empty [OF f2 disjI1, OF mem]
    note d1 = normalized_or_empty [OF f3 disjI2, OF dsk]
    show ?R
      apply (intro conjI)
        apply (rule exI [of _ cw], rule exI [of _ w3], rule exI [of _ w4], rule exI [of _ w5])
        apply (rule exI [of _ cpu_data], rule exI [of _ memory_data],
          rule exI [of _ disk_data])
        apply (simp only: f1 f2 f3 cpu m1 d1 simp_thms)
      using m1 apply blast
      using d1 apply blast
      done
  qed
  from conv run show ?thesis by blast
qed

theorem bytes_to_gb_once_and_linear_witness:
  "get_rds_metrics_try demo_env ''AK'' ''SK'' ''db-2'' ''us-west-2'' 1 0 =
     (Inr db_2_metrics, 4) \<and>
   vals (memory (res_metrics db_2_metrics)) = [1, 3] \<and>
   average (memory (res_metrics db_2_metrics)) = mean [1, 3] \<and>
   vals (bytes_to_gb (memory (res_metrics db_2_metrics))) = [1 / 2 ^ 30, 3 / 2 ^ 30]"
  using bytes_to_gb_once_and_linear [where env = demo_env and aws_access_key = "''AK''"
      and aws_secret_key = "''SK''" and instance_id = "''db-2''" and region = "''us-west-2''"
      and period_days = 1 and w = 0 and m = db_2_metrics and w' = 4
      and series = "memory (res_metrics db_2_metrics)"]
    demo_db_2_run
  by (simp add: db_2_metrics_def)

lemma rds_try_ok:
  "get_rds_metrics_try env a s i r p w = (Inr m, w') \<Longrightarrow>
     get_rds_metrics env a s i r p w = (m, w')"
  by (simp add: get_rds_metrics_def try_except_def)

text \<open>
  C6, as amended. In a database record that the try block returns, the memory series has
  a \<open>total\<close> exactly when the fetched memory series has a value, and it is then the
  estimate of the instance class. When the try block raises (the detail lookup fails,
  for one), the degraded record has a \<open>total\<close> as well, the number 0, and no value.
\<close>

theorem capacity_field_presence:
  "(get_rds_metrics_try env aws_access_key aws_secret_key instance_id region period_days w =
      (Inr m, w') \<longrightarrow>
      get_rds_metrics env aws_access_key aws_secret_key instance_id region period_days w =
        (m, w') \<and>
      (\<exists>cloudwatch w4 w5 memory_data.
         get_cloudwatch_metric_data env cloudwatch ''FreeableMemory'' ''AWS/RDS''
           [(''DBInstanceIdentifier'', instance_id)] period_days ''Average'' w4 =
           (Inr memory_data, w5) \<and>
         (total (memory (res_metrics m)) \<noteq> None) = (vals memory_data \<noteq> [])) \<and>
      (total (memory (res_metrics m)) \<noteq> None) = (vals (memory (res_metrics m)) \<noteq> []) \<and>
      (vals (memory (res_metrics m)) \<noteq> [] \<longrightarrow>
         total (memory (res_metrics m)) = Some (total_memory_gb (res_type m)))) \<and>
   (get_rds_metrics_try env aws_access_key aws_secret_key instance_id region period_days w =
      (Inl e, w') \<longrightarrow>
      get_rds_metrics env aws_access_key aws_secret_key instance_id region period_days w =
        (rds_fallback instance_id region, w') \<and>
      vals (memory (res_metrics (rds_fallback instance_id region))) = [] \<and>
      total (memory (res_metrics (rds_fallback instance_id region))) = Some 0)"
  (is "(?ok \<longrightarrow> ?R) \<and> (?failed \<longrightarrow> ?F)")
proof -
  have success: ?R if ok: ?ok
  proof -
    from rds_try_series [OF ok]
    obtain cw w3 w4 w5 cpu_data memory_data disk_data and inst :: db_instance where
      f2: "get_cloudwatch_metric_data env cw ''FreeableMemory'' ''AWS/RDS''
         [(''DBInstanceIdentifier'', instance_id)] period_days ''Average'' w4 =
         (Inr memory_data, w5)"
      and ty: "res_type m = DBInstanceClass inst"
      and ms: "res_metrics m =
            \<lparr>cpu = cpu_data,
             memory =
               (if vals memory_data \<noteq> []
                then (bytes_to_gb memory_data)
                       \<lparr>total := Some (total_memory_gb (DBInstanceClass inst))\<rparr>
                else memory_data),
             disk = (if vals disk_data \<noteq> [] then bytes_to_gb disk_data else disk_data)\<rparr>"
      by (elim exE conjE)
    have raw_total: "total memory_data = None"
      using fetch_total [OF f2] .
    have mem: "memory (res_metrics m) =
        (if vals memory_data \<noteq> []
         then (bytes_to_gb memory_data)
                \<lparr>total := Some (total_memory_gb (DBInstanceClass inst))\<rparr>
         else memory_data)"
      by (simp add: ms)
    have present: "(total (memory (res_metrics m)) \<noteq> None) = (vals memory_data \<noteq> [])"
      using raw_total by (simp add: mem)
    have same: "(vals (memory (res_metrics m)) \<noteq> []) = (vals memory_data \<noteq> [])"
      by (simp add: mem bytes_to_gb_fields)
    have estimate: "total (memory (res_metrics m)) = Some (total_memory_gb (res_type m))"
      if "vals (memory (res_metrics m)) \<noteq> []"
      using that same by (simp add: mem ty)
    show ?R
      using rds_try_ok [OF ok] f2 present same estimate by blast
  qed
  have failure: ?F if failed: ?failed
    using rds_try_fails [OF failed]
    by (simp add: rds_fallback_def empty_series_def)
  from success failure show ?thesis by blast
qed

theorem capacity_field_presence_witness:
  "get_rds_metrics demo_env ''AK'' ''SK'' ''db-2'' ''us-west-2'' 1 0 = (db_2_metrics, 4) \<and>
   vals (memory (res_metrics db_2_metrics)) = [1, 3] \<and>
   total (memory (res_metrics db_2_metrics)) = Some (total_memory_gb ''db.r5.2xlarge'') \<and>
   get_rds_metrics demo_env ''AK'' ''SK'' ''db-9'' ''eu-west-1'' 1 0 =
     (rds_fallback ''db-9'' ''eu-west-1'', 1) \<and>
   total (memory (res_metrics (rds_fallback ''db-9'' ''eu-west-1''))) = Some 0"
  using capacity_field_presence [where env = demo_env and aws_access_key = "''AK''"
      and aws_secret_key = "''SK''" and instance_id = "''db-2''" and region = "''us-west-2''"
      and period_days = 1 and w = 0 and m = db_2_metrics and w' = 4]
    capacity_field_presence [where env = demo_env and aws_access_key = "''AK''"
      and aws_secret_key = "''SK''" and instance_id = "''db-9''" and region = "''eu-west-1''"
      and period_days = 1 and w = 0 and e = "Raised ''DBInstanceNotFound''" and w' = 1]
    demo_db_2_run demo_db_9_run
  by (simp add: db_2_metrics_def)

text \<open>
  The claim as stated fails where the lookup fails: the database \<open>db-9\<close> does not
  exist, its record has no memory value and the capacity field 0.
\<close>

theorem capacity_field_degraded_counterexample:
  "vals (memory (res_metrics
     (fst (get_rds_metrics demo_env ''AK'' ''SK'' ''db-9'' ''eu-west-1'' 1 0)))) = [] \<and>
   total (memory (res_metrics
     (fst (get_rds_metrics demo_env ''AK'' ''SK'' ''db-9'' ''eu-west-1'' 1 0)))) = Some 0 \<and>
   total (memory (res_metrics
     (fst (get_rds_metrics demo_env ''AK'' ''SK'' ''db-9'' ''eu-west-1'' 1 0)))) \<noteq> None"
  using rds_try_fails [OF demo_db_9_run]
  by (simp add: rds_fallback_def empty_series_def)

section \<open>The name of an EC2 instance\<close>

lemma fold_last_name:
  "fold (\<lambda>tag instance_name. if Key tag = ''Name'' then Value tag else instance_name) ts d =
     (case filter (\<lambda>tag. Key tag = ''Name'') ts of
        [] \<Rightarrow> d
      | t # rest \<Rightarrow> Value (last (t # rest)))"
proof (induction ts rule: rev_induct)
  case Nil
  then show ?case by simp
next
  case (snoc x xs)
  then show ?case
    by (cases "filter (\<lambda>tag. Key tag = ''Name'') xs") auto
qed

lemma name_from_tags_spec: "name_from_tags d tags = spec_last_name_tag d tags"
  by (cases tags) (simp_all add: name_from_tags_def spec_last_name_tag_def fold_last_name)

lemma ec2_try_ok:
  "get_ec2_metrics_try env a s i r p w = (Inr m, w') \<Longrightarrow>
     get_ec2_metrics env a s i r p w = (m, w')"
  by (simp add: get_ec2_metrics_def try_except_def)

lemma ec2_try_name:
  assumes "boto3_client env ''cloudwatch'' r a s w = (Inr cw, w1)"
    and "boto3_client env ''ec2'' r a s w1 = (Inr c, w2)"
    and "describe_instances env c (Some [i]) w2 = (Inr ((inst # rest) # rests), w3)"
    and "get_ec2_metrics_try env a s i r p w = (Inr m, w')"
  shows "res_name m = name_from_tags i (Tags inst)"
  using assms
  unfolding get_ec2_metrics_try_def get_aws_client_def Let_def
  by (auto simp: and_then_Inr_iff returns_iff of_result_Inr_iff index0_Inr_iff)

lemma list_ec2_ok:
  assumes "boto3_client env ''ec2'' r a s w = (Inr c, w1)"
    and "describe_instances env c None w1 = (Inr response, w2)"
  shows "list_ec2_instances env a s r w = (map (instance_data r) (concat response), w2)"
  using assms
  by (simp add: list_ec2_instances_def try_except_def get_aws_client_def and_then_def
      returns_def)

text \<open>
  C9, as amended. The name is the value of the last tag keyed Name, in the order of the
  tags. When there is none, the enumerator \<open>list_ec2_instances\<close> gives the name
  Unnamed, and \<open>get_ec2_metrics\<close> gives the instance id, as its degraded record
  does.
\<close>

theorem ec2_name_resolution:
  "(boto3_client env ''ec2'' region aws_access_key aws_secret_key w = (Inr ec2_client, w1) \<longrightarrow>
    describe_instances env ec2_client None w1 = (Inr response, w2) \<longrightarrow>
      list_ec2_instances env aws_access_key aws_secret_key region w =
        (map (instance_data region) (concat response), w2) \<and>
      map res_name (map (instance_data region) (concat response)) =
        map (\<lambda>inst. spec_last_name_tag ''Unnamed'' (Tags inst)) (concat response)) \<and>
   (boto3_client env ''cloudwatch'' region aws_access_key aws_secret_key w =
      (Inr cloudwatch, w1) \<longrightarrow>
    boto3_client env ''ec2'' region aws_access_key aws_secret_key w1 = (Inr ec2_client, w2') \<longrightarrow>
    describe_instances env ec2_client (Some [instance_id]) w2' =
      (Inr ((inst # rest) # rests), w3) \<longrightarrow>
    get_ec2_metrics_try env aws_access_key aws_secret_key instance_id region period_days w =
      (Inr m, w') \<longrightarrow>
      get_ec2_metrics env aws_access_key aws_secret_key instance_id region period_days w =
        (m, w') \<and>
      res_name m = spec_last_name_tag instance_id (Tags inst)) \<and>
   res_name (ec2_fallback instance_id region) = instance_id"
  using list_ec2_ok [of env region aws_access_key aws_secret_key w ec2_client w1 response w2]
    ec2_try_name [of env region aws_access_key aws_secret_key w cloudwatch w1 ec2_client w2'
      instance_id inst rest rests w3 period_days m w']
    ec2_try_ok [of env aws_access_key aws_secret_key instance_id region period_days w m w']
  by (simp add: name_from_tags_spec instance_data_def ec2_fallback_def)

lemma demo_i_456_run:
  "get_ec2_metrics_try demo_env ''AK'' ''SK'' ''i-456'' ''us-east-1'' 1 0 =
     (Inr i_456_metrics, 4)"
  by (simp add: get_ec2_metrics_try_def get_aws_client_def and_then_def returns_def
      of_result_def index0_def fetch_unfold demo_env_def demo_datapoints_def timedelta_def
      datetime_sub_def series_of_datapoints_def i_456_def name_from_tags_def platform_of_def
      lower_def lower_char_def empty_series_def i_456_metrics_def Let_def)

text \<open>
  The claim as stated fails in \<open>get_ec2_metrics\<close>: the instance \<open>i-456\<close> has no tags,
  its lookup succeeds, and its record is named \<open>i-456\<close>.
\<close>

theorem ec2_name_default_counterexample:
  "Tags i_456 = None \<and>
   describe_instances demo_env (demo_cloudwatch\<lparr>client_service := ''ec2''\<rparr>)
     (Some [''i-456'']) 0 = (Inr [[i_456]], 1) \<and>
   get_ec2_metrics demo_env ''AK'' ''SK'' ''i-456'' ''us-east-1'' 1 0 = (i_456_metrics, 4) \<and>
   res_state i_456_metrics = ''stopped'' \<and>
   res_name i_456_metrics = ''i-456'' \<and>
   res_name i_456_metrics \<noteq> ''Unnamed''"
  using ec2_try_ok [OF demo_i_456_run]
  by (simp add: i_456_def i_456_metrics_def demo_env_def)

lemma demo_i_123_run:
  "get_ec2_metrics_try demo_env ''AK'' ''SK'' ''i-123'' ''us-east-1'' 1 0 =
     (Inr i_123_metrics, 4)"
  by (simp add: get_ec2_metrics_try_def get_aws_client_def and_then_def returns_def
      of_result_def index0_def fetch_unfold demo_env_def demo_datapoints_def timedelta_def
      datetime_sub_def series_of_datapoints_def i_123_def name_from_tags_def platform_of_def
      lower_def lower_char_def empty_series_def i_123_metrics_def Let_def)

theorem ec2_name_resolution_witness:
  "list_ec2_instances demo_env ''AK'' ''SK'' ''us-east-1'' 0 =
     (map (instance_data ''us-east-1'') [i_123, i_456], 1) \<and>
   map res_name (map (instance_data ''us-east-1'') [i_123, i_456]) = [''web-2'', ''Unnamed''] \<and>
   get_ec2_metrics demo_env ''AK'' ''SK'' ''i-123'' ''us-east-1'' 1 0 = (i_123_metrics, 4) \<and>
   res_name i_123_metrics = ''web-2''"
proof -
  have cw: "boto3_client demo_env ''cloudwatch'' ''us-east-1'' ''AK'' ''SK'' 0 =
              (Inr demo_cloudwatch, 0)"
    by (simp add: demo_env_def demo_cloudwatch_def)
  have ec2: "boto3_client demo_env ''ec2'' ''us-east-1'' ''AK'' ''SK'' 0 =
              (Inr (demo_cloudwatch\<lparr>client_service := ''ec2''\<rparr>), 0)"
    by (simp add: demo_env_def demo_cloudwatch_def)
  have every: "describe_instances demo_env (demo_cloudwatch\<lparr>client_service := ''ec2''\<rparr>)
              None 0 = (Inr [[i_123], [i_456]], 1)"
    by (simp add: demo_env_def)
  have one: "describe_instances demo_env (demo_cloudwatch\<lparr>client_service := ''ec2''\<rparr>)
              (Some [''i-123'']) 0 = (Inr ([i_123] # []), 1)"
    by (simp add: demo_env_def)
  show ?thesis
    using ec2_name_resolution [where env = demo_env and aws_access_key = "''AK''"
        and aws_secret_key = "''SK''" and region = "''us-east-1''" and w = 0
        and cloudwatch = demo_cloudwatch and ?w1.0 = 0
        and ec2_client = "demo_cloudwatch\<lparr>client_service := ''ec2''\<rparr>" and ?w2.0 = 1
        and ?w2' = 0 and response = "[[i_123], [i_456]]" and instance_id = "''i-123''"
        and inst = i_123 and rest = "[]" and rests = "[]" and ?w3.0 = 1 and period_days = 1
        and m = i_123_metrics and w' = 4]
      cw ec2 every one demo_i_123_run
    by (simp add: spec_last_name_tag_def i_123_def i_456_def)
qed

section \<open>Responses of the report server\<close>

lemma missing_credentials:
  assumes "data_aws_access_key data = None \<or> data_aws_access_key data = Some [] \<or>
           data_aws_secret_key data = None \<or> data_aws_secret_key data = Some []"
  shows "generate_report_try env data w = (Inr credentials_required, w)"
  using assms
  by (auto simp: generate_report_try_def Let_def returns_def split: option.splits)

lemma render_fails:
  assumes "data_aws_access_key data = Some aws_access_key" "aws_access_key \<noteq> []"
    and "data_aws_secret_key data = Some aws_secret_key" "aws_secret_key \<noteq> []"
    and "get_instance_metrics env aws_access_key aws_secret_key
           (case data_resourceIds data of None \<Rightarrow> [] | Some ids \<Rightarrow> ids)
           (case data_period data of None \<Rightarrow> 1 | Some d \<Rightarrow> d) w = (metrics_data, w1)"
    and "generate_pdf_report env
           (case data_accountName data of None \<Rightarrow> ''AWS Account'' | Some n \<Rightarrow> n)
           metrics_data w1 = (Inl e, w2)"
  shows "generate_report_try env data w = (Inl e, w2)"
  using assms
  by (simp add: generate_report_try_def Let_def and_then_def)

lemma report_try_fails:
  "generate_report_try env data w = (Inl e, w') \<Longrightarrow>
     generate_report env data w =
       (([(''success'', JBool False), (''error'', JString (str e))], 500), w')"
  by (simp add: generate_report_def try_except_def)

lemma report_try_ok:
  "generate_report_try env data w = (Inr response, w') \<Longrightarrow>
     generate_report env data w = (response, w')"
  by (simp add: generate_report_def try_except_def)

text \<open>
  C8. When the access key or the secret key is missing (absent or empty), the response
  is the error message with status 400 and the world is as before: no call was made. When
  the try block raises, the response has status 500 and carries \<open>success: false\<close> and
  the message of the exception; a failure of the renderer is such a case. (The
  aggregator raises nothing on a list of strings, see C4.)
\<close>

theorem report_error_responses:
  "(data_aws_access_key data = None \<or> data_aws_access_key data = Some [] \<or>
    data_aws_secret_key data = None \<or> data_aws_secret_key data = Some [] \<longrightarrow>
      generate_report env data w =
        (([(''error'', JString ''AWS credentials are required'')], 400), w)) \<and>
   (generate_report_try env data w = (Inl e, w') \<longrightarrow>
      generate_report env data w =
        (([(''success'', JBool False), (''error'', JString (str e))], 500), w')) \<and>
   (data_aws_access_key data = Some aws_access_key \<longrightarrow> aws_access_key \<noteq> [] \<longrightarrow>
    data_aws_secret_key data = Some aws_secret_key \<longrightarrow> aws_secret_key \<noteq> [] \<longrightarrow>
    get_instance_metrics env aws_access_key aws_secret_key
      (case data_resourceIds data of None \<Rightarrow> [] | Some ids \<Rightarrow> ids)
      (case data_period data of None \<Rightarrow> 1 | Some d \<Rightarrow> d) w = (metrics_data, w1) \<longrightarrow>
    generate_pdf_report env
      (case data_accountName data of None \<Rightarrow> ''AWS Account'' | Some n \<Rightarrow> n)
      metrics_data w1 = (Inl e, w2) \<longrightarrow>
      generate_report env data w =
        (([(''success'', JBool False), (''error'', JString (str e))], 500), w2))"
  using report_try_ok [OF missing_credentials, of data env w]
    report_try_fails [of env data w e w']
    report_try_fails [OF render_fails, of data aws_access_key aws_secret_key env w
      metrics_data w1 e w2]
  by (simp add: credentials_required_def)

theorem report_error_responses_witness:
  "generate_report demo_env
     \<lparr>data_cloudAccountId = Some ''42'', data_resourceIds = Some [''EC2|i-123|us-east-1''],
      data_accountName = Some ''Acme'', data_period = Some 7,
      data_aws_access_key = Some ''AK'', data_aws_secret_key = None\<rparr> 0 =
     (([(''error'', JString ''AWS credentials are required'')], 400), 0) \<and>
   generate_report demo_env
     \<lparr>data_cloudAccountId = Some ''42'', data_resourceIds = Some [''EC2|i-123|us-east-1''],
      data_accountName = Some ''broken'', data_period = Some 1,
      data_aws_access_key = Some ''AK'', data_aws_secret_key = Some ''SK''\<rparr> 0 =
     (([(''success'', JBool False), (''error'', JString ''render failed'')], 500), 5)"
proof -
  have collected: "get_instance_metrics demo_env ''AK'' ''SK'' [''EC2|i-123|us-east-1''] 1 0 =
      ([i_123_metrics], 4)"
    using ec2_try_ok [OF demo_i_123_run] by simp
  have refused: "generate_pdf_report demo_env ''broken'' [i_123_metrics] 4 =
      (Inl (Raised ''render failed''), 5)"
    by (simp add: demo_env_def)
  show ?thesis
    using report_error_responses [where env = demo_env and w = 0
        and data = "\<lparr>data_cloudAccountId = Some ''42'',
          data_resourceIds = Some [''EC2|i-123|us-east-1''],
          data_accountName = Some ''Acme'', data_period = Some 7,
          data_aws_access_key = Some ''AK'', data_aws_secret_key = None\<rparr>"]
      report_error_responses [where env = demo_env and w = 0
        and data = "\<lparr>data_cloudAccountId = Some ''42'',
          data_resourceIds = Some [''EC2|i-123|us-east-1''],
          data_accountName = Some ''broken'', data_period = Some 1,
          data_aws_access_key = Some ''AK'', data_aws_secret_key = Some ''SK''\<rparr>"
        and aws_access_key = "''AK''" and aws_secret_key = "''SK''"
        and metrics_data = "[i_123_metrics]" and ?w1.0 = 4
        and e = "Raised ''render failed''" and ?w2.0 = 5]
      collected refused
    by (simp del: get_instance_metrics.simps)
qed

end
